theory Spec2Isabelle
  imports Main "HOL-Library.AList"
begin

section \<open>Data model of \<open>createConfig.ts\<close>\<close>

text \<open>
  Errors are values. \<open>TypeError\<close> is what JavaScript raises when a property is read
  from \<open>undefined\<close> or \<open>null\<close>, or when the \<open>in\<close> operator is applied to a
  value that is not an object. \<open>ChainNotConfiguredError\<close> is the error class imported
  by \<open>createConfig.ts\<close>. \<open>NoConnectorAvailable\<close> is named by the specification
  only: no source file constructs it. \<open>ProviderError\<close> stands for whatever a wallet
  provider rejects with.
\<close>

datatype error =
    TypeError
  | ChainNotConfiguredError
  | NoConnectorAvailable
  | ProviderError string

type_synonym Address = string

text \<open>A \<open>Chain\<close> descriptor; only its \<open>id\<close> is read by the code.\<close>

record Chain =
  chain_id :: int

text \<open>
  The \<open>emitter\<close> of a connector. \<open>setup\<close> (lines 98-113) gives every connector of the
  registry an emitter made by \<open>createEmitter(uid())\<close>, which has the methods \<open>on\<close>
  and \<open>off\<close>: \<open>Emitter u\<close>, with the emitter's uid. A connector that came back from
  the storage is a copy of the data of the object that was stored: functions are not
  stored, so what it holds as \<open>emitter\<close> has no methods: \<open>Deserialized\<close>.
\<close>

datatype Emitter = Emitter string | Deserialized

text \<open>
  A \<open>Connector\<close> is an object: \<open>connector_ref\<close> is its identity (two connector
  objects are the same reference iff the records are equal), \<open>uid\<close> the emitter's uid
  copied onto it by \<open>setup\<close>, \<open>isPriorityProvider\<close> the optional flag read by
  \<open>getClient\<close>.
\<close>

record Connector =
  connector_ref :: nat
  uid :: string
  isPriorityProvider :: bool
  emitter :: Emitter

text \<open>
  \<open>Connection\<close> (the source's field \<open>chainId\<close> is \<open>conn_chainId\<close> here, since
  \<open>State\<close> has a field of the same name).
\<close>

record Connection =
  accounts :: "Address list"
  conn_chainId :: int
  connector :: Connector

datatype Status = Connected | Connecting | Disconnected | Reconnecting

text \<open>
  \<open>State\<close>. The JavaScript \<open>Map<string, Connection>\<close> is an association list in
  insertion order:
  \<^item> \<open>m.get(k)\<close> is \<open>map_of m k\<close>;
  \<^item> \<open>new Map(m).set(k, v)\<close> is \<open>AList.update k v m\<close>, which overwrites an existing key
    in place and appends a new key at the end, as \<open>Map.prototype.set\<close> does;
  \<^item> \<open>m.delete(k)\<close> is \<open>AList.delete k m\<close>;
  \<^item> \<open>m.values().next().value\<close> is the value of the first pair.
  A JavaScript map holds each key once: \<open>wf_State\<close> says so of the list.
\<close>

record State =
  chainId :: int
  connections :: "(string \<times> Connection) list"
  current :: "string option"
  status :: Status

definition wf_State :: "State \<Rightarrow> bool" where
  "wf_State x = distinct (map fst (connections x))"

text \<open>
  \<open>initialState\<close> (lines 195-200), as a function of \<open>chains[0]\<close>; the parameter type
  \<open>readonly [Chain, ...Chain[]]\<close> makes \<open>chains\<close> non-empty.
\<close>

definition initialState :: "Chain \<Rightarrow> State" where
  "initialState chain0 =
     \<lparr>chainId = chain_id chain0, connections = [], current = None, status = Disconnected\<rparr>"

section \<open>Emitter listeners (lines 256-320)\<close>

text \<open>
  Each listener passes an updater to \<open>store.setState\<close>; the functions below are those
  updaters, from the state \<open>x\<close> to the next state. The event data is given field by
  field; an optional field of the data (\<open>accounts?\<close>, \<open>chainId?\<close>) is an option.

  \<open>change\<close>: \<open>x.connections.get(data.uid)!\<close> is \<open>undefined\<close> when the uid has no
  entry (the \<open>!\<close> is erased by the compiler), and the object literal then reads a
  property of it: \<open>connection.accounts\<close> or \<open>connection.chainId\<close> where the data
  lacks the field (lines 264-265), and \<open>connection.connector\<close> (line 266) whatever the
  data carries. The first of these reads raises a TypeError inside the updater: nothing is
  committed.
\<close>

definition change ::
  "string \<Rightarrow> Address list option \<Rightarrow> int option \<Rightarrow> State \<Rightarrow> error + State" where
  "change data_uid data_accounts data_chainId x =
     (case map_of (connections x) data_uid of
        None \<Rightarrow> Inl TypeError
      | Some connection \<Rightarrow>
          Inr (x\<lparr>connections :=
                 AList.update data_uid
                   \<lparr>accounts = (case data_accounts of Some a \<Rightarrow> a | None \<Rightarrow> accounts connection),
                    conn_chainId =
                      (case data_chainId of Some c \<Rightarrow> c | None \<Rightarrow> conn_chainId connection),
                    connector = connector connection\<rparr>
                   (connections x)\<rparr>))"

text \<open>
  \<open>connect\<close>: the status guard of lines 273-277, then the updater of lines 279-292.
  \<open>connectors\<close> is \<open>connectors.getState()\<close>, the registry.
\<close>

definition connect ::
  "Connector list \<Rightarrow> string \<Rightarrow> Address list \<Rightarrow> int \<Rightarrow> State \<Rightarrow> State" where
  "connect connectors data_uid data_accounts data_chainId x =
     (if status x = Connecting \<or> status x = Reconnecting then x
      else
        (case find (\<lambda>c. uid c = data_uid) connectors of
           None \<Rightarrow> x
         | Some connector' \<Rightarrow>
             x\<lparr>connections :=
                 AList.update data_uid
                   \<lparr>accounts = data_accounts, conn_chainId = data_chainId,
                    connector = connector'\<rparr>
                   (connections x),
               current := Some data_uid,
               status := Connected\<rparr>))"

text \<open>
  A call of a method of an emitter: \<open>emitter.off(name, listener)\<close> and
  \<open>emitter.on(name, listener)\<close>, with the emitter's uid and the event's name. The
  listener is the config's handler of that name.
\<close>

datatype EmitterCall = Off string string | On string string

text \<open>
  The first part of the updater of \<open>disconnect\<close> (lines 296-301): when the uid has a
  connection, the listeners of its connector's emitter are rewired, \<open>change\<close> and
  \<open>disconnect\<close> off and \<open>connect\<close> on. The result is the list of the calls made, in
  their order. On a connector whose emitter has no methods the first call,
  \<open>connection.connector.emitter.off('change', change)\<close>, raises a TypeError.
\<close>

definition rewire :: "string \<Rightarrow> State \<Rightarrow> error + EmitterCall list" where
  "rewire data_uid x =
     (case map_of (connections x) data_uid of
        None \<Rightarrow> Inr []
      | Some connection \<Rightarrow>
          (case emitter (connector connection) of
             Deserialized \<Rightarrow> Inl TypeError
           | Emitter e \<Rightarrow> Inr [Off e ''change'', Off e ''disconnect'', On e ''connect'']))"

text \<open>
  \<open>disconnect\<close> (lines 294-320): the rewiring, whose exception leaves the updater
  before the delete, so that nothing is removed and nothing committed; then the delete.
  After it, an empty map gives the disconnected state; otherwise \<open>current\<close> becomes the
  \<open>uid\<close> of the connector of the first remaining connection.
\<close>

definition disconnect :: "string \<Rightarrow> State \<Rightarrow> error + State" where
  "disconnect data_uid x =
     (case rewire data_uid x of
        Inl e \<Rightarrow> Inl e
      | Inr calls \<Rightarrow>
          Inr (case AList.delete data_uid (connections x) of
                 [] \<Rightarrow> x\<lparr>connections := [], current := None, status := Disconnected\<rparr>
               | (k, nextConnection) # rest \<Rightarrow>
                   x\<lparr>connections := (k, nextConnection) # rest,
                     current := Some (uid (connector nextConnection))\<rparr>))"

text \<open>
  The uid has no connection, or its connection's connector has an emitter with methods:
  the states on which the rewiring of \<open>disconnect\<close> raises nothing.
\<close>

definition live_connection :: "string \<Rightarrow> State \<Rightarrow> bool" where
  "live_connection data_uid x =
     (case map_of (connections x) data_uid of
        None \<Rightarrow> True
      | Some connection \<Rightarrow>
          (case emitter (connector connection) of Emitter e \<Rightarrow> True | Deserialized \<Rightarrow> False))"

section \<open>The client cache: \<open>getClient\<close> (lines 121-189)\<close>

text \<open>
  A \<open>Client\<close> is an object built by the client library's \<open>createClient\<close>, which
  returns a new object at every call: \<open>client_ref\<close> is the object's identity, taken
  from an allocation counter, so two clients are reference-equal iff their \<open>client_ref\<close>
  agree. \<open>client_transport\<close> records where the client's transport came from:
  \<open>rest.transports[chainId]\<close> (line 183), the \<open>custom\<close> transport that forwards to a
  connector's provider (lines 152-158), or the caller's own \<open>rest.client\<close> function
  (line 165). The resolution of the remaining per-chain options (lines 169-178) sets no
  field that \<open>getClient\<close> reads back and is left out.
\<close>

datatype Transport = TransportsEntry int | CustomTransport Connector | ClientFn

record Client =
  client_ref :: nat
  client_chain :: Chain
  client_transport :: Transport

definition createClient :: "nat \<Rightarrow> Chain \<Rightarrow> Transport \<Rightarrow> Client" where
  "createClient ref chain transport =
     \<lparr>client_ref = ref, client_chain = chain, client_transport = transport\<rparr>"

text \<open>
  The parameters of \<open>createConfig\<close> that the modelled code reads. \<open>client\<close> is the
  optional \<open>rest.client\<close>: a function of the caller, given the chain and the allocation
  counter (it may build a new object or hand out one it already has).
\<close>

record Config =
  chains :: "Chain list"
  syncConnectedChain :: bool
  client :: "(Chain \<Rightarrow> nat \<Rightarrow> Client) option"

text \<open>
  The mutable \<open>clients\<close> map of line 121, with the allocation counter for new objects.
\<close>

record ClientCache =
  clients :: "(int \<times> Client) list"
  next_ref :: nat

text \<open>
  \<open>getClient\<close>. \<open>config_chainId\<close> is \<open>config.chainId\<close> (absent: \<open>None\<close>), \<open>x\<close> is
  \<open>store.getState()\<close>, \<open>connectorState\<close> is \<open>connectors.getState()\<close>, always an
  array. The result is the returned client or the thrown error, with the cache after the
  call. The loop of lines 144-161 returns at the first connector whose uid is the current
  one and whose \<open>isPriorityProvider\<close> is set; that \<open>return\<close> comes before line 187.
\<close>

definition getClient ::
  "Config \<Rightarrow> Connector list \<Rightarrow> State \<Rightarrow> int option \<Rightarrow> ClientCache
     \<Rightarrow> (error + Client) \<times> ClientCache" where
  "getClient cfg connectorState x config_chainId h =
     (let chainId' = (case config_chainId of Some c \<Rightarrow> c | None \<Rightarrow> chainId x) in
      case find (\<lambda>c. chain_id c = chainId') (chains cfg) of
        None \<Rightarrow>
          (case map_of (clients h) (chainId x) of
             Some client' \<Rightarrow> (Inr client', h)
           | None \<Rightarrow> (Inl ChainNotConfiguredError, h))
      | Some chain \<Rightarrow>
          (case map_of (clients h) chainId' of
             Some client' \<Rightarrow> (Inr client', h)
           | None \<Rightarrow>
               (case find (\<lambda>c. Some (uid c) = current x \<and> isPriorityProvider c)
                       connectorState of
                  Some connector' \<Rightarrow>
                    (Inr (createClient (next_ref h) chain (CustomTransport connector')),
                     h\<lparr>next_ref := Suc (next_ref h)\<rparr>)
                | None \<Rightarrow>
                    (let client' =
                       (case client cfg of
                          Some f \<Rightarrow> f chain (next_ref h)
                        | None \<Rightarrow>
                            createClient (next_ref h) chain (TransportsEntry (chain_id chain)))
                     in (Inr client',
                         h\<lparr>clients := AList.update chainId' client' (clients h),
                           next_ref := Suc (next_ref h)\<rparr>)))))"

section \<open>The public \<open>setState\<close> (lines 333-344)\<close>

text \<open>
  The public \<open>setState\<close> inspects its argument at run time, so the argument is a
  JavaScript value. \<open>JMap\<close> is a \<open>Map\<close> object with its entries, \<open>JObject\<close> a plain
  object with its own properties in creation order.
\<close>

datatype jsval =
    JUndefined
  | JNull
  | JBoolean bool
  | JNumber int
  | JString string
  | JArray "jsval list"
  | JMap "(string \<times> jsval) list"
  | JObject "(string \<times> jsval) list"

text \<open>The \<open>typeof\<close> operator; \<open>typeof null\<close> is \<open>"object"\<close>.\<close>

fun typeof :: "jsval \<Rightarrow> string" where
  "typeof JUndefined = ''undefined''"
| "typeof JNull = ''object''"
| "typeof (JBoolean b) = ''boolean''"
| "typeof (JNumber n) = ''number''"
| "typeof (JString s) = ''string''"
| "typeof (JArray xs) = ''object''"
| "typeof (JMap m) = ''object''"
| "typeof (JObject props) = ''object''"

text \<open>
  \<open>k in v\<close>, for the keys \<open>k\<close> it is evaluated at: the four keys of the initial state,
  which no built-in prototype defines, so that only own properties count. The operator
  raises a TypeError when its right operand is not an object, and \<open>null\<close> is not one.
\<close>

fun js_in :: "string \<Rightarrow> jsval \<Rightarrow> error + bool" where
  "js_in k (JObject props) = Inr (k \<in> set (map fst props))"
| "js_in k (JMap m) = Inr False"
| "js_in k (JArray xs) = Inr False"
| "js_in k v = Inl TypeError"

text \<open>\<open>Object.keys\<close> of a plain object.\<close>

fun object_keys :: "jsval \<Rightarrow> string list" where
  "object_keys (JObject props) = map fst props"
| "object_keys v = []"

text \<open>
  \<open>keys.some((x) => !(x in newState))\<close>: stops at the first key that is missing, and
  at the first exception.
\<close>

fun some_not_in :: "string list \<Rightarrow> jsval \<Rightarrow> error + bool" where
  "some_not_in [] newState = Inr False"
| "some_not_in (k # ks) newState =
     (case js_in k newState of
        Inl e \<Rightarrow> Inl e
      | Inr present \<Rightarrow> if \<not> present then Inr True else some_not_in ks newState)"

text \<open>
  The argument of \<open>setState\<close> is a function (\<open>typeof value === 'function'\<close>), applied
  to the stored state, or any other value.
\<close>

datatype setState_arg = Updater "jsval \<Rightarrow> jsval" | Value jsval

text \<open>
  \<open>setState\<close>: the value that \<open>store.setState(newState, true)\<close> commits, or the
  exception raised before line 343 is reached. \<open>initial\<close> is \<open>initialState\<close> and
  \<open>stored\<close> is \<open>store.getState()\<close>.
\<close>

definition setState :: "jsval \<Rightarrow> jsval \<Rightarrow> setState_arg \<Rightarrow> error + jsval" where
  "setState initial stored value =
     (let newState = (case value of Updater f \<Rightarrow> f stored | Value v \<Rightarrow> v);
          newState' = (if typeof newState \<noteq> ''object'' then initial else newState)
      in case some_not_in (object_keys initial) newState' of
           Inl e \<Rightarrow> Inl e
         | Inr isCorrupt \<Rightarrow> Inr (if isCorrupt then initial else newState'))"

text \<open>A \<open>State\<close> as the JavaScript object it is.\<close>

fun js_of_Emitter :: "Emitter \<Rightarrow> jsval" where
  "js_of_Emitter (Emitter u) = JObject [(''uid'', JString u), (''live'', JBoolean True)]"
| "js_of_Emitter Deserialized = JObject []"

definition js_of_Connector :: "Connector \<Rightarrow> jsval" where
  "js_of_Connector c =
     JObject [(''ref'', JNumber (int (connector_ref c))), (''uid'', JString (uid c)),
              (''emitter'', js_of_Emitter (emitter c)),
              (''isPriorityProvider'', JBoolean (isPriorityProvider c))]"

definition js_of_Connection :: "Connection \<Rightarrow> jsval" where
  "js_of_Connection c =
     JObject [(''accounts'', JArray (map JString (accounts c))),
              (''chainId'', JNumber (conn_chainId c)),
              (''connector'', js_of_Connector (connector c))]"

fun js_of_Status :: "Status \<Rightarrow> jsval" where
  "js_of_Status Connected = JString ''connected''"
| "js_of_Status Connecting = JString ''connecting''"
| "js_of_Status Disconnected = JString ''disconnected''"
| "js_of_Status Reconnecting = JString ''reconnecting''"

definition js_of_State :: "State \<Rightarrow> jsval" where
  "js_of_State x =
     JObject [(''chainId'', JNumber (chainId x)),
              (''connections'', JMap (map (\<lambda>(k, c). (k, js_of_Connection c)) (connections x))),
              (''current'', (case current x of None \<Rightarrow> JUndefined | Some u \<Rightarrow> JString u)),
              (''status'', js_of_Status (status x))]"

section \<open>The store and the chain subscription (lines 202-242)\<close>

text \<open>
  The selector of the subscription (lines 230-231):
  \<open>current ? connections.get(current)?.chainId : undefined\<close>. The empty string is
  falsy.
\<close>

definition select_chain :: "State \<Rightarrow> int option" where
  "select_chain x =
     (case current x of
        None \<Rightarrow> None
      | Some c \<Rightarrow> if c = [] then None else map_option conn_chainId (map_of (connections x) c))"

text \<open>
  The listener of the subscription (lines 232-241): \<open>None\<close> when it returns without
  calling \<open>store.setState\<close>, otherwise the state its updater gives. No chain has an
  id equal to \<open>undefined\<close>.
\<close>

definition sync_listener :: "Chain list \<Rightarrow> int option \<Rightarrow> State \<Rightarrow> State option" where
  "sync_listener chains' chainId' x =
     (let isChainConfigured = list_ex (\<lambda>c. Some (chain_id c) = chainId') chains' in
      if \<not> isChainConfigured then None
      else Some (x\<lparr>chainId := (case chainId' of Some c \<Rightarrow> c | None \<Rightarrow> chainId x)\<rparr>))"

text \<open>
  What lives while the config object does: the content of the store, the slice that the
  subscription saw last, and the connector registry.
\<close>

record Runtime =
  store_state :: State
  currentSlice :: "int option"
  registry :: "Connector list"

text \<open>
  \<open>store.setState\<close> with the chain subscription, after the contract of the reactive
  store: the next state replaces the stored one and the subscribers run; a subscriber with
  a selector remembers the slice it saw last and calls its listener, with the new slice,
  only when the selected slice differs from it. The listener's own \<open>store.setState\<close>
  changes \<open>chainId\<close> alone, which the selector does not read, so the subscriber does
  not run the listener a second time.
\<close>

definition store_setState :: "Config \<Rightarrow> State \<Rightarrow> Runtime \<Rightarrow> Runtime" where
  "store_setState cfg nextState rt =
     (let rt1 = rt\<lparr>store_state := nextState\<rparr> in
      if \<not> syncConnectedChain cfg then rt1
      else
        (let nextSlice = select_chain nextState in
         if nextSlice = currentSlice rt then rt1
         else
           (case sync_listener (chains cfg) nextSlice nextState of
              None \<Rightarrow> rt1\<lparr>currentSlice := nextSlice\<rparr>
            | Some synced \<Rightarrow> rt1\<lparr>store_state := synced, currentSlice := nextSlice\<rparr>)))"

text \<open>
  The store at the end of \<open>createConfig\<close>, before any event (\<open>chain0\<close> is
  \<open>chains[0]\<close>).
\<close>

definition createStore :: "Chain \<Rightarrow> Connector list \<Rightarrow> Runtime" where
  "createStore chain0 connectors =
     \<lparr>store_state = initialState chain0,
      currentSlice = select_chain (initialState chain0),
      registry = connectors\<rparr>"

text \<open>
  What can happen to the store: the three emitter events, a provider announced by the
  discovery store (line 248 appends its connector to the registry), and a call of the
  public \<open>setState\<close> with a well-typed \<open>State\<close>, which passes the checks of lines
  339-341 (lemma \<open>setState_commits_State\<close>) and is committed.
\<close>

datatype Event =
    Change string "Address list option" "int option"
  | Connect string "Address list" int
  | Disconnect string
  | Announce Connector
  | SetState State

text \<open>
  An exception in the updater of \<open>change\<close> or of \<open>disconnect\<close> leaves the store
  as it is. \<open>connect\<close>
  returns before \<open>store.setState\<close> under its status guard, and an updater that returns
  the state it was given commits nothing.
\<close>

fun dispatch :: "Config \<Rightarrow> Event \<Rightarrow> Runtime \<Rightarrow> Runtime" where
  "dispatch cfg (Change u a c) rt =
     (case change u a c (store_state rt) of
        Inl e \<Rightarrow> rt
      | Inr x' \<Rightarrow> store_setState cfg x' rt)"
| "dispatch cfg (Connect u a c) rt =
     (if status (store_state rt) = Connecting \<or> status (store_state rt) = Reconnecting then rt
      else
        (case find (\<lambda>c. uid c = u) (registry rt) of
           None \<Rightarrow> rt
         | Some connector' \<Rightarrow> store_setState cfg (connect (registry rt) u a c (store_state rt)) rt))"
| "dispatch cfg (Disconnect u) rt =
     (case disconnect u (store_state rt) of
        Inl e \<Rightarrow> rt
      | Inr x' \<Rightarrow> store_setState cfg x' rt)"
| "dispatch cfg (Announce connector') rt = rt\<lparr>registry := registry rt @ [connector']\<rparr>"
| "dispatch cfg (SetState v) rt = store_setState cfg v rt"

definition run :: "Config \<Rightarrow> Event list \<Rightarrow> Runtime \<Rightarrow> Runtime" where
  "run cfg events rt = foldl (\<lambda>r e. dispatch cfg e r) rt events"

text \<open>The ids of the configured chains, and the events that keep to them.\<close>

definition configured :: "Config \<Rightarrow> int \<Rightarrow> bool" where
  "configured cfg c = list_ex (\<lambda>x. chain_id x = c) (chains cfg)"

fun event_configured :: "Config \<Rightarrow> Event \<Rightarrow> bool" where
  "event_configured cfg (SetState v) = configured cfg (chainId v)"
| "event_configured cfg e = True"

fun is_SetState :: "Event \<Rightarrow> bool" where
  "is_SetState (SetState v) = True"
| "is_SetState e = False"

section \<open>The connector transport: \<open>experimental_connector\<close>\<close>

text \<open>
  A promise is settled with a value, settled with an error, or never settled.
\<close>

datatype 'a promise = Resolved 'a | Rejected error | Pending

text \<open>
  A provider answers \<open>request({method, params})\<close>; the transport's own connector type
  has \<open>getProvider\<close> alone, whose promise may resolve to \<open>null\<close> (the code tests
  \<open>if (provider)\<close>).
\<close>

record EthereumProvider =
  provider_request :: "string \<Rightarrow> string list \<Rightarrow> string promise"

record ProviderConnector =
  getProvider :: "EthereumProvider option promise"

text \<open>
  A connector factory applied to \<open>connectorConfig\<close> throws or returns a connector.
\<close>

type_synonym CreateConnectorFn = "error + ProviderConnector"

text \<open>
  The callback of \<open>forEach\<close> (lines 52-62) is asynchronous and runs in two parts.
  Up to its \<open>await\<close> it runs inside \<open>forEach\<close>: a factory that throws is caught and
  logged there and its callback is over; every other callback is suspended with the
  connector it made. \<open>started\<close> are the connectors of the suspended callbacks, in the
  order of the factories.
\<close>

definition started :: "CreateConnectorFn list \<Rightarrow> ProviderConnector list" where
  "started createConnectorFns =
     List.map_filter (\<lambda>f. case f of Inl e \<Rightarrow> None | Inr connector' \<Rightarrow> Some connector')
       createConnectorFns"

text \<open>
  The rest of the callback, once the promise of \<open>getProvider\<close> is settled (lines
  55-61), as the new value of the variable \<open>successfulConnector\<close>: a rejection is
  caught and logged, a provider that is \<open>null\<close> assigns nothing, and a promise that
  never settles never reaches line 56.
\<close>

definition after_await ::
  "ProviderConnector \<Rightarrow> ProviderConnector option \<Rightarrow> ProviderConnector option" where
  "after_await connector' successfulConnector =
     (case getProvider connector' of
        Resolved (Some provider) \<Rightarrow> Some connector'
      | Resolved None \<Rightarrow> successfulConnector
      | Rejected e \<Rightarrow> successfulConnector
      | Pending \<Rightarrow> successfulConnector)"

text \<open>
  The closure of the returned transport: the variable \<open>successfulConnector\<close> and the
  callbacks suspended at their \<open>await\<close>. No callback has assigned the variable when
  \<open>experimental_connector\<close> returns, and the empty branch of lines 64-66 does nothing.
\<close>

record ConnectorTransport =
  successfulConnector :: "ProviderConnector option"
  suspended :: "ProviderConnector list"

definition experimental_connector :: "CreateConnectorFn list \<Rightarrow> ConnectorTransport" where
  "experimental_connector createConnectorFns =
     \<lparr>successfulConnector = None, suspended = started createConnectorFns\<rparr>"

text \<open>The suspended callback at position \<open>i\<close> resumes and runs to its end.\<close>

definition resume :: "nat \<Rightarrow> ConnectorTransport \<Rightarrow> ConnectorTransport" where
  "resume i t =
     (if i < length (suspended t)
      then \<lparr>successfulConnector = after_await (suspended t ! i) (successfulConnector t),
            suspended = take i (suspended t) @ drop (Suc i) (suspended t)\<rparr>
      else t)"

text \<open>The callbacks resume in any order: \<open>order\<close> gives the positions, one after another.\<close>

definition resume_all :: "nat list \<Rightarrow> ConnectorTransport \<Rightarrow> ConnectorTransport" where
  "resume_all order t = foldl (\<lambda>t' i. resume i t') t order"

text \<open>
  The \<open>request\<close> function handed to \<open>createTransport\<close> (lines 72-76), as the promise
  it returns. \<open>successfulConnector!.getProvider()\<close> raises a TypeError when the variable
  is \<open>null\<close>, and so does \<open>provider.request\<close> on a \<open>null\<close> provider. The retry
  policy that \<open>createTransport\<close> wraps around this function belongs to the client
  library.
\<close>

definition request :: "ConnectorTransport \<Rightarrow> string \<Rightarrow> string list \<Rightarrow> string promise" where
  "request t method params =
     (case successfulConnector t of
        None \<Rightarrow> Rejected TypeError
      | Some connector' \<Rightarrow>
          (case getProvider connector' of
             Resolved (Some provider) \<Rightarrow> provider_request provider method params
           | Resolved None \<Rightarrow> Rejected TypeError
           | Rejected e \<Rightarrow> Rejected e
           | Pending \<Rightarrow> Pending))"

text \<open>A factory that never yields a working provider: it throws, or its provider is \<open>null\<close>.\<close>

definition resolves_null :: "ProviderConnector \<Rightarrow> bool" where
  "resolves_null connector' =
     (case getProvider connector' of Resolved None \<Rightarrow> True | _ \<Rightarrow> False)"

definition never_works :: "CreateConnectorFn \<Rightarrow> bool" where
  "never_works f = (case f of Inl e \<Rightarrow> True | Inr connector' \<Rightarrow> resolves_null connector')"

section \<open>Concrete configurations and states\<close>

definition chain1 :: Chain where
  "chain1 = \<lparr>chain_id = 1\<rparr>"

definition chain2 :: Chain where
  "chain2 = \<lparr>chain_id = 2\<rparr>"

definition config12 :: Config where
  "config12 = \<lparr>chains = [chain1, chain2], syncConnectedChain = True, client = None\<rparr>"

definition connA :: Connector where
  "connA =
     \<lparr>connector_ref = 0, uid = ''a'', isPriorityProvider = False, emitter = Emitter ''a''\<rparr>"

definition connB :: Connector where
  "connB =
     \<lparr>connector_ref = 1, uid = ''b'', isPriorityProvider = False, emitter = Emitter ''b''\<rparr>"

definition connC :: Connector where
  "connC =
     \<lparr>connector_ref = 2, uid = ''c'', isPriorityProvider = False, emitter = Emitter ''c''\<rparr>"

definition connP :: Connector where
  "connP =
     \<lparr>connector_ref = 3, uid = ''p'', isPriorityProvider = True, emitter = Emitter ''p''\<rparr>"

definition conn_of :: "Connector \<Rightarrow> Connection" where
  "conn_of c = \<lparr>accounts = [''0x01''], conn_chainId = 1, connector = c\<rparr>"

text \<open>Three connections, made in the order a, b, c; the last one made is current.\<close>

definition state_abc :: State where
  "state_abc =
     \<lparr>chainId = 1,
      connections = [(''a'', conn_of connA), (''b'', conn_of connB), (''c'', conn_of connC)],
      current = Some ''c'', status = Connected\<rparr>"

definition state_c :: State where
  "state_c =
     \<lparr>chainId = 1, connections = [(''c'', conn_of connC)], current = Some ''c'',
      status = Connected\<rparr>"

text \<open>Connector b as it comes back from the storage: a copy, its emitter without methods.\<close>

definition stored_connB :: Connector where
  "stored_connB =
     \<lparr>connector_ref = 11, uid = ''b'', isPriorityProvider = False, emitter = Deserialized\<rparr>"

text \<open>
  The store after a page reload: the persisted \<open>connections\<close> and \<open>current\<close> are
  back, and \<open>status\<close>, which is not persisted, is the initial \<open>disconnected\<close>.
\<close>

definition state_rehydrated :: State where
  "state_rehydrated =
     \<lparr>chainId = 1, connections = [(''b'', conn_of stored_connB)], current = Some ''b'',
      status = Disconnected\<rparr>"

text \<open>
  After the reload connector a connects, which makes it current beside the stored
  connection of b (\<open>state_stale_a\<close>); then a disconnects, which leaves the stored
  connection of b as the only and current one (\<open>state_stale\<close>).
\<close>

definition state_stale_a :: State where
  "state_stale_a =
     \<lparr>chainId = 1,
      connections = [(''b'', conn_of stored_connB), (''a'', conn_of connA)],
      current = Some ''a'', status = Connected\<rparr>"

definition state_stale :: State where
  "state_stale =
     \<lparr>chainId = 1, connections = [(''b'', conn_of stored_connB)], current = Some ''b'',
      status = Connected\<rparr>"

definition events_reload :: "Event list" where
  "events_reload = [SetState state_rehydrated, Connect ''a'' [''0x01''] 1, Disconnect ''a'']"

text \<open>The priority connector is the current one.\<close>

definition state_p :: State where
  "state_p =
     \<lparr>chainId = 1, connections = [(''p'', conn_of connP)], current = Some ''p'',
      status = Connected\<rparr>"

definition empty_cache :: ClientCache where
  "empty_cache = \<lparr>clients = [], next_ref = 0\<rparr>"

definition state_999 :: State where
  "state_999 = \<lparr>chainId = 999, connections = [], current = None, status = Disconnected\<rparr>"

text \<open>Connector a connects on chain 2, then reports the unconfigured chain 999.\<close>

definition events_a :: "Event list" where
  "events_a = [Connect ''a'' [''0x01''] 2, Change ''a'' None (Some 999)]"

text \<open>Two factories: the first throws, the provider of the second resolves to \<open>null\<close>.\<close>

definition failing_fns :: "CreateConnectorFn list" where
  "failing_fns = [Inl (ProviderError ''no wallet''), Inr \<lparr>getProvider = Resolved None\<rparr>]"

lemmas example_defs =
  chain1_def chain2_def config12_def connA_def connB_def connC_def connP_def conn_of_def
  state_abc_def state_c_def state_rehydrated_def state_p_def empty_cache_def state_999_def
  events_a_def stored_connB_def state_stale_a_def state_stale_def events_reload_def

section \<open>Association lists as JavaScript maps\<close>

lemma length_delete_distinct:
  "distinct (map fst xs) \<Longrightarrow> length xs \<le> Suc (length (AList.delete k xs))"
  by (induction xs) (auto simp: image_iff)

lemma delete_nonempty:
  assumes "distinct (map fst xs)" and "2 \<le> length xs"
  shows "AList.delete k xs \<noteq> []"
  using length_delete_distinct [OF assms(1), of k] assms(2) by auto

section \<open>The emitter listeners\<close>

lemma change_unknown_uid:
  "map_of (connections x) u = None \<Longrightarrow> change u a c x = Inl TypeError"
  by (simp add: change_def)

lemma change_chainId: "change u a c x = Inr x' \<Longrightarrow> chainId x' = chainId x"
  by (auto simp: change_def split: option.splits)

lemma connect_chainId: "chainId (connect cs u a c x) = chainId x"
  by (simp add: connect_def split: option.splits)

lemma rewire_live: "live_connection u x \<Longrightarrow> \<exists>calls. rewire u x = Inr calls"
  by (auto simp: live_connection_def rewire_def split: option.splits Emitter.splits)

text \<open>With nothing raised by the rewiring, \<open>disconnect\<close> is the delete and what follows it.\<close>

lemma disconnect_live:
  assumes "live_connection u x"
  shows "disconnect u x =
           Inr (case AList.delete u (connections x) of
                  [] \<Rightarrow> x\<lparr>connections := [], current := None, status := Disconnected\<rparr>
                | (k, nextConnection) # rest \<Rightarrow>
                    x\<lparr>connections := (k, nextConnection) # rest,
                      current := Some (uid (connector nextConnection))\<rparr>)"
proof -
  from rewire_live [OF assms] obtain calls where "rewire u x = Inr calls" ..
  then show ?thesis by (simp add: disconnect_def)
qed

text \<open>On a connection whose connector's emitter has no methods it raises a TypeError.\<close>

lemma disconnect_stale:
  "map_of (connections x) u = Some c \<Longrightarrow> emitter (connector c) = Deserialized \<Longrightarrow>
     disconnect u x = Inl TypeError"
  by (simp add: disconnect_def rewire_def)

lemma disconnect_chainId: "disconnect u x = Inr x' \<Longrightarrow> chainId x' = chainId x"
  by (auto simp: disconnect_def split: sum.splits list.splits)

text \<open>
  C2. The claim: a change event whose uid has no entry in \<open>connections\<close> is a no-op that
  does not fail. The code reads a property of the missing connection: the
  updater raises a TypeError, here from the initial state. The store keeps its state
  because the exception leaves \<open>store.setState\<close> before anything is committed.
\<close>

theorem change_unknown_uid_TypeError:
  "change ''a'' None (Some 5) (initialState chain1) = Inl TypeError
   \<and> change ''a'' (Some [''0x01'']) (Some 5) (initialState chain1) = Inl TypeError
   \<and> dispatch config12 (Change ''a'' None (Some 5)) (createStore chain1 [connA])
       = createStore chain1 [connA]"
  by (simp add: change_def initialState_def createStore_def)

text \<open>
  C10. A change event whose uid has a connection changes that entry alone: \<open>chainId\<close>,
  \<open>current\<close> and \<open>status\<close> are kept, every other uid maps to what it mapped to, the
  keys keep their order, the entries other than the uid's are the same list, and the
  uid's entry keeps its connector.
\<close>

theorem change_frame:
  assumes "map_of (connections x) u = Some c"
  shows "\<exists>x'. change u a ci x = Inr x'
       \<and> chainId x' = chainId x \<and> current x' = current x \<and> status x' = status x
       \<and> (\<forall>u'. u' \<noteq> u \<longrightarrow> map_of (connections x') u' = map_of (connections x) u')
       \<and> map fst (connections x') = map fst (connections x)
       \<and> AList.delete u (connections x') = AList.delete u (connections x)
       \<and> map_option connector (map_of (connections x') u) = Some (connector c)"
proof -
  from assms have "u \<in> set (map fst (connections x))"
    by (metis map_of_eq_None_iff option.distinct(1) set_map)
  with assms show ?thesis
    by (simp add: change_def update_conv' update_keys delete_update_same)
qed

theorem change_frame_witness:
  "map_of (connections state_abc) ''b'' = Some (conn_of connB)
   \<and> (\<exists>x'. change ''b'' None (Some 5) state_abc = Inr x'
        \<and> chainId x' = chainId state_abc \<and> current x' = current state_abc
        \<and> status x' = status state_abc
        \<and> map_of (connections x') ''a'' = map_of (connections state_abc) ''a''
        \<and> map_of (connections x') ''c'' = map_of (connections state_abc) ''c''
        \<and> map fst (connections x') = [''a'', ''b'', ''c'']
        \<and> map_option connector (map_of (connections x') ''b'') = Some connB)"
proof -
  have h: "map_of (connections state_abc) ''b'' = Some (conn_of connB)"
    by (simp add: state_abc_def)
  from change_frame [OF h, of None "Some 5"] obtain x' where
    x': "change ''b'' None (Some 5) state_abc = Inr x'"
      "chainId x' = chainId state_abc" "current x' = current state_abc"
      "status x' = status state_abc"
      "\<forall>u'. u' \<noteq> ''b'' \<longrightarrow> map_of (connections x') u' = map_of (connections state_abc) u'"
      "map fst (connections x') = map fst (connections state_abc)"
      "map_option connector (map_of (connections x') ''b'') = Some (connector (conn_of connB))"
    by blast
  from x'(5) have "map_of (connections x') ''a'' = map_of (connections state_abc) ''a''"
    and "map_of (connections x') ''c'' = map_of (connections state_abc) ''c''"
    by simp_all
  moreover from x'(6) have "map fst (connections x') = [''a'', ''b'', ''c'']"
    by (simp add: state_abc_def)
  moreover from x'(7) have "map_option connector (map_of (connections x') ''b'') = Some connB"
    by (simp add: conn_of_def)
  ultimately show ?thesis using x'(1-4)
    by (intro conjI exI [of _ x'] h) simp_all
qed

text \<open>
  C7, as amended. From a state with status \<open>disconnected\<close>, a connect event whose uid is
  in the registry gives the state with status \<open>connected\<close>, \<open>current\<close> the uid, and
  \<open>connections\<close> the previous map with the uid's entry inserted or overwritten, the
  entry made of the event's accounts and chain id and the registry's connector; the map
  holds that entry alone when the previous map was empty. A uid that is not in the
  registry leaves the state as it is.
\<close>

theorem connect_from_disconnected:
  assumes "status x = Disconnected"
  shows "(find (\<lambda>c. uid c = u) connectors = Some c \<longrightarrow>
            connect connectors u a ci x =
              x\<lparr>connections :=
                  AList.update u \<lparr>accounts = a, conn_chainId = ci, connector = c\<rparr> (connections x),
                current := Some u, status := Connected\<rparr>
          \<and> map_of (connections (connect connectors u a ci x)) u =
              Some \<lparr>accounts = a, conn_chainId = ci, connector = c\<rparr>
          \<and> (\<forall>u'. u' \<noteq> u \<longrightarrow>
                map_of (connections (connect connectors u a ci x)) u' = map_of (connections x) u')
          \<and> (connections x = [] \<longrightarrow>
                connections (connect connectors u a ci x) =
                  [(u, \<lparr>accounts = a, conn_chainId = ci, connector = c\<rparr>)]))
       \<and> (find (\<lambda>c. uid c = u) connectors = None \<longrightarrow> connect connectors u a ci x = x)"
  using assms by (simp add: connect_def update_conv')

theorem connect_from_disconnected_witness:
  "status (initialState chain1) = Disconnected
   \<and> find (\<lambda>c. uid c = ''a'') [connA, connB] = Some connA
   \<and> connect [connA, connB] ''a'' [''0x02''] 2 (initialState chain1) =
       \<lparr>chainId = 1,
        connections = [(''a'', \<lparr>accounts = [''0x02''], conn_chainId = 2, connector = connA\<rparr>)],
        current = Some ''a'', status = Connected\<rparr>
   \<and> find (\<lambda>c. uid c = ''c'') [connA, connB] = None
   \<and> connect [connA, connB] ''c'' [''0x02''] 2 (initialState chain1) = initialState chain1"
proof -
  have h: "status (initialState chain1) = Disconnected"
    by (simp add: initialState_def)
  have fa: "find (\<lambda>c. uid c = ''a'') [connA, connB] = Some connA"
    and fc: "find (\<lambda>c. uid c = ''c'') [connA, connB] = None"
    by (simp_all add: connA_def connB_def)
  from connect_from_disconnected [OF h, of "''a''" "[connA, connB]" connA "[''0x02'']" 2] fa
  have "connect [connA, connB] ''a'' [''0x02''] 2 (initialState chain1) =
          \<lparr>chainId = 1,
           connections = [(''a'', \<lparr>accounts = [''0x02''], conn_chainId = 2, connector = connA\<rparr>)],
           current = Some ''a'', status = Connected\<rparr>"
    by (simp add: initialState_def chain1_def)
  moreover
  from connect_from_disconnected [OF h, of "''c''" "[connA, connB]" connA "[''0x02'']" 2] fc
  have "connect [connA, connB] ''c'' [''0x02''] 2 (initialState chain1) = initialState chain1"
    by simp
  ultimately show ?thesis using h fa fc by simp
qed

text \<open>
  The claim C7 as it is written fails on a state with status \<open>disconnected\<close> that holds a
  connection already: the connections of the result are that one and the new one.
\<close>

theorem connect_from_disconnected_counterexample:
  "status state_rehydrated = Disconnected
   \<and> find (\<lambda>c. uid c = ''a'') [connA, connB] = Some connA
   \<and> connections (connect [connA, connB] ''a'' [''0x02''] 1 state_rehydrated) =
       [(''b'', conn_of stored_connB),
        (''a'', \<lparr>accounts = [''0x02''], conn_chainId = 1, connector = connA\<rparr>)]
   \<and> connections (connect [connA, connB] ''a'' [''0x02''] 1 state_rehydrated) \<noteq>
       [(''a'', \<lparr>accounts = [''0x02''], conn_chainId = 1, connector = connA\<rparr>)]"
  by (simp add: connect_def state_rehydrated_def connA_def connB_def)

text \<open>
  C3, as amended. In a state with status \<open>connected\<close> and at least two connections,
  a disconnect event for a uid that is not the current one, and whose connection, if it
  has one, holds a connector with a working emitter, removes that uid's entry and no
  other, and keeps \<open>status\<close>; \<open>current\<close> becomes the uid of the connector of the
  first remaining connection, so it is kept exactly when the current connection is that
  one.
\<close>

theorem disconnect_non_current:
  assumes "status x = Connected" and "2 \<le> length (connections x)" and "wf_State x"
    and "current x \<noteq> Some u" and "live_connection u x"
  shows "\<exists>x'. disconnect u x = Inr x'
       \<and> connections x' = AList.delete u (connections x)
       \<and> status x' = status x
       \<and> current x' = Some (uid (connector (snd (hd (AList.delete u (connections x))))))
       \<and> ((current x' = current x) =
            (current x = Some (uid (connector (snd (hd (AList.delete u (connections x))))))))"
proof -
  from assms have "AList.delete u (connections x) \<noteq> []"
    by (simp add: delete_nonempty wf_State_def)
  then obtain k c rest where "AList.delete u (connections x) = (k, c) # rest"
    by (cases "AList.delete u (connections x)") auto
  then show ?thesis
    using disconnect_live [OF assms(5)] by auto
qed

theorem disconnect_non_current_witness:
  "status state_abc = Connected \<and> 2 \<le> length (connections state_abc) \<and> wf_State state_abc
   \<and> current state_abc \<noteq> Some ''b'' \<and> live_connection ''b'' state_abc
   \<and> (\<exists>x'. disconnect ''b'' state_abc = Inr x'
        \<and> connections x' = [(''a'', conn_of connA), (''c'', conn_of connC)]
        \<and> status x' = Connected
        \<and> current x' = Some ''a'')"
proof -
  have h: "status state_abc = Connected" "2 \<le> length (connections state_abc)"
    "wf_State state_abc" "current state_abc \<noteq> Some ''b''" "live_connection ''b'' state_abc"
    by (simp_all add: state_abc_def wf_State_def live_connection_def conn_of_def connB_def)
  from disconnect_non_current [OF h] obtain x' where
    x': "disconnect ''b'' state_abc = Inr x'"
      "connections x' = AList.delete ''b'' (connections state_abc)"
      "status x' = status state_abc"
      "current x' =
         Some (uid (connector (snd (hd (AList.delete ''b'' (connections state_abc))))))"
    by blast
  from x'(2) have "connections x' = [(''a'', conn_of connA), (''c'', conn_of connC)]"
    by (simp add: state_abc_def)
  moreover from x'(3) have "status x' = Connected"
    by (simp add: state_abc_def)
  moreover from x'(4) have "current x' = Some ''a''"
    by (simp add: state_abc_def conn_of_def connA_def)
  ultimately show ?thesis
    using x'(1) by (intro conjI exI [of _ x'] h) simp_all
qed

text \<open>
  The claim C3 as it is written fails where the current connection is not the first one:
  with connections a, b, c and c current, the disconnect of b makes a current. It fails
  too on a connection that came back from the storage: with the stored connection of b
  and the current connection of a, the disconnect of b raises a TypeError and removes
  nothing.
\<close>

theorem disconnect_non_current_counterexample:
  "status state_abc = Connected \<and> 2 \<le> length (connections state_abc)
   \<and> current state_abc = Some ''c'' \<and> current state_abc \<noteq> Some ''b''
   \<and> disconnect ''b'' state_abc =
       Inr (state_abc\<lparr>connections := [(''a'', conn_of connA), (''c'', conn_of connC)],
                      current := Some ''a''\<rparr>)
   \<and> current state_abc \<noteq> Some ''a''
   \<and> status state_stale_a = Connected \<and> length (connections state_stale_a) = 2
   \<and> current state_stale_a = Some ''a''
   \<and> disconnect ''b'' state_stale_a = Inl TypeError"
  by (simp add: disconnect_def rewire_def example_defs)




section \<open>The client cache\<close>

text \<open>
  Where no priority connector is current, a client that \<open>getClient\<close> returns for a
  configured chain is in the cache afterwards, and every later call for that chain
  returns it again, whatever the store and the registry have become.
\<close>

lemma getClient_cached_twice:
  assumes "find (\<lambda>c. chain_id c = X) (chains cfg) = Some chain"
    and "find (\<lambda>c. Some (uid c) = current x \<and> isPriorityProvider c) cs = None"
    and "getClient cfg cs x (Some X) h = (r, h')"
  shows "getClient cfg cs' x' (Some X) h' = (r, h')"
  using assms by (auto simp: getClient_def Let_def update_conv' split: option.splits)

text \<open>
  C4. The claim: two calls of \<open>getClient\<close> for a configured chain return the same
  client object, every client built being stored in the cache first, also the one built
  for a priority connector. The code returns the priority connector's client at line 148
  without storing it: with chains 1 and 2, the priority connector current and an empty
  cache, the first call for chain 1 returns a new client and leaves the cache empty, and
  the second call builds another client.
\<close>

theorem getClient_priority_not_cached:
  "fst (getClient config12 [connP] state_p (Some 1) empty_cache) =
     Inr (createClient 0 chain1 (CustomTransport connP))
   \<and> clients (snd (getClient config12 [connP] state_p (Some 1) empty_cache)) = []
   \<and> fst (getClient config12 [connP] state_p (Some 1)
            (snd (getClient config12 [connP] state_p (Some 1) empty_cache))) =
       Inr (createClient 1 chain1 (CustomTransport connP))
   \<and> client_ref (createClient 0 chain1 (CustomTransport connP)) \<noteq>
       client_ref (createClient 1 chain1 (CustomTransport connP))"
  by (simp add: getClient_def createClient_def example_defs)

text \<open>
  C9, as amended. For a chain id that is not configured, \<open>getClient\<close> returns the client
  cached under the store's current \<open>chainId\<close> when there is one, and fails with
  \<open>ChainNotConfiguredError\<close> when there is none, whatever is cached under other chain
  ids; the cache is left as it was.
\<close>

theorem getClient_unconfigured:
  assumes "\<not> configured cfg X"
  shows "getClient cfg cs x (Some X) h =
           (case map_of (clients h) (chainId x) of
              Some c \<Rightarrow> (Inr c, h)
            | None \<Rightarrow> (Inl ChainNotConfiguredError, h))"
proof -
  from assms have "find (\<lambda>c. chain_id c = X) (chains cfg) = None"
    by (auto simp: configured_def find_None_iff list_ex_iff)
  then show ?thesis
    by (simp add: getClient_def)
qed

theorem getClient_unconfigured_witness:
  "\<not> configured config12 99
   \<and> getClient config12 [] (initialState chain1) (Some 99) empty_cache =
       (Inl ChainNotConfiguredError, empty_cache)
   \<and> getClient config12 [] (initialState chain1) (Some 99)
       \<lparr>clients = [(1, createClient 0 chain1 (TransportsEntry 1))], next_ref = 1\<rparr> =
       (Inr (createClient 0 chain1 (TransportsEntry 1)),
        \<lparr>clients = [(1, createClient 0 chain1 (TransportsEntry 1))], next_ref = 1\<rparr>)"
proof -
  have h: "\<not> configured config12 99"
    by (simp add: configured_def example_defs)
  from getClient_unconfigured [OF h, of "[]" "initialState chain1" empty_cache]
    getClient_unconfigured [OF h, of "[]" "initialState chain1"
      "\<lparr>clients = [(1, createClient 0 chain1 (TransportsEntry 1))], next_ref = 1\<rparr>"]
    h
  show ?thesis
    by (simp add: initialState_def chain1_def empty_cache_def)
qed

text \<open>
  The claim C9 as it is written fails where the cached client is for a chain other than
  the store's current one: with chains 1 and 2 and the store on chain 1, a call for chain
  2 caches a client under 2, and the call for the unconfigured chain 99 still fails.
\<close>

theorem getClient_unconfigured_counterexample:
  "\<not> configured config12 99
   \<and> map_of (clients (snd (getClient config12 [] (initialState chain1) (Some 2) empty_cache))) 2
       = Some (createClient 0 chain2 (TransportsEntry 2))
   \<and> fst (getClient config12 [] (initialState chain1) (Some 99)
            (snd (getClient config12 [] (initialState chain1) (Some 2) empty_cache)))
       = Inl ChainNotConfiguredError"
  by (simp add: getClient_def Let_def createClient_def initialState_def configured_def
      example_defs)

section \<open>The public \<open>setState\<close>\<close>

lemma some_not_in_missing:
  "k \<in> set ks \<Longrightarrow> k \<notin> set (map fst props) \<Longrightarrow> some_not_in ks (JObject props) = Inr True"
  by (induction ks) auto

lemma some_not_in_initial:
  "some_not_in (object_keys (js_of_State init)) (js_of_State init) = Inr False"
  by (simp add: js_of_State_def)

text \<open>A well-typed \<open>State\<close> has the four keys and is committed as it is.\<close>

lemma setState_commits_State:
  "setState (js_of_State init) stored (Value (js_of_State v)) = Inr (js_of_State v)"
  by (simp add: setState_def js_of_State_def)

text \<open>
  A value whose \<open>typeof\<close> is not \<open>"object"\<close>, and a plain object that lacks a key of
  the initial state, reset the store to the initial state.
\<close>

lemma setState_resets:
  assumes "typeof v \<noteq> ''object'' \<or>
           (\<exists>props k. v = JObject props \<and> k \<in> set (object_keys (js_of_State init))
              \<and> k \<notin> set (map fst props))"
  shows "setState (js_of_State init) stored (Value v) = Inr (js_of_State init)"
  using assms
proof
  assume "typeof v \<noteq> ''object''"
  then show ?thesis
    using some_not_in_initial [of init] by (simp add: setState_def)
next
  assume "\<exists>props k. v = JObject props \<and> k \<in> set (object_keys (js_of_State init))
            \<and> k \<notin> set (map fst props)"
  then obtain props k where "v = JObject props"
    and "k \<in> set (object_keys (js_of_State init))" and "k \<notin> set (map fst props)"
    by blast
  then show ?thesis
    using some_not_in_missing [of k "object_keys (js_of_State init)" props]
    by (simp add: setState_def)
qed

text \<open>
  C6. The claim: every value that is not an object resets the store to the initial
  state, and \<open>setState\<close> never raises for it. \<open>null\<close> is not an object, but its
  \<open>typeof\<close> is \<open>"object"\<close>, so line 339 lets it through and line 340 evaluates
  \<open>x in null\<close>: a TypeError, raised before \<open>store.setState\<close> is reached. The same
  happens when an updater function returns \<open>null\<close>.
\<close>

theorem setState_null_TypeError:
  "setState (js_of_State (initialState chain1)) (js_of_State (initialState chain1))
     (Value JNull) = Inl TypeError
   \<and> setState (js_of_State (initialState chain1)) (js_of_State (initialState chain1))
       (Updater (\<lambda>x. JNull)) = Inl TypeError"
  by (simp add: setState_def js_of_State_def)

section \<open>The store and the chain subscription\<close>

lemma select_chain_chainId [simp]: "select_chain (x\<lparr>chainId := c\<rparr>) = select_chain x"
  by (simp add: select_chain_def split: option.splits)

lemma sync_listener_Some:
  "sync_listener cs sl x = Some y \<Longrightarrow>
     \<exists>c. sl = Some c \<and> list_ex (\<lambda>x. chain_id x = c) cs \<and> y = x\<lparr>chainId := c\<rparr>"
  by (cases sl) (auto simp: sync_listener_def Let_def list_ex_iff split: if_splits)

lemma sync_listener_unconfigured:
  "\<not> configured cfg c \<Longrightarrow> sync_listener (chains cfg) (Some c) x = None"
  by (simp add: sync_listener_def configured_def)

text \<open>
  A commit stores the next state as it is, or with its \<open>chainId\<close> set to the chain id
  of the active connection, which is then a configured one.
\<close>

lemma store_setState_chainId:
  "chainId (store_state (store_setState cfg s rt)) = chainId s
   \<or> (syncConnectedChain cfg
       \<and> configured cfg (chainId (store_state (store_setState cfg s rt)))
       \<and> select_chain s = Some (chainId (store_state (store_setState cfg s rt))))"
  by (auto simp: store_setState_def Let_def configured_def split: option.splits
      dest!: sync_listener_Some)

lemma store_setState_select:
  "select_chain (store_state (store_setState cfg s rt)) = select_chain s"
  by (auto simp: store_setState_def Let_def split: option.splits dest!: sync_listener_Some)

lemma store_setState_unconfigured:
  assumes "select_chain s = Some c" and "\<not> configured cfg c"
  shows "store_state (store_setState cfg s rt) = s"
  using assms by (simp add: store_setState_def Let_def sync_listener_unconfigured)

lemma dispatch_configured:
  assumes "configured cfg (chainId (store_state rt))" and "event_configured cfg e"
  shows "configured cfg (chainId (store_state (dispatch cfg e rt)))"
proof (cases e)
  case (Change u a c)
  show ?thesis
  proof (cases "change u a c (store_state rt)")
    case (Inl err)
    with Change assms show ?thesis by simp
  next
    case (Inr x')
    with Change assms change_chainId [OF Inr] store_setState_chainId [of cfg x' rt]
    show ?thesis by auto
  qed
next
  case (Connect u a c)
  with assms connect_chainId [of "registry rt" u a c "store_state rt"]
    store_setState_chainId [of cfg "connect (registry rt) u a c (store_state rt)" rt]
  show ?thesis by (auto split: option.splits)
next
  case (Disconnect u)
  show ?thesis
  proof (cases "disconnect u (store_state rt)")
    case (Inl err)
    with Disconnect assms show ?thesis by simp
  next
    case (Inr x')
    with Disconnect assms disconnect_chainId [OF Inr] store_setState_chainId [of cfg x' rt]
    show ?thesis by auto
  qed
next
  case (Announce c)
  with assms show ?thesis by simp
next
  case (SetState v)
  with assms store_setState_chainId [of cfg v rt] show ?thesis by auto
qed

lemma run_configured:
  "configured cfg (chainId (store_state rt)) \<Longrightarrow> list_all (event_configured cfg) events \<Longrightarrow>
     configured cfg (chainId (store_state (run cfg events rt)))"
proof (induction events arbitrary: rt)
  case Nil
  then show ?case by (simp add: run_def)
next
  case (Cons e es)
  from Cons.prems have "configured cfg (chainId (store_state (dispatch cfg e rt)))"
    by (simp add: dispatch_configured)
  from Cons.IH [OF this] Cons.prems(2) show ?case by (simp add: run_def)
qed

lemma dispatch_unconfigured_keeps:
  assumes "\<not> is_SetState e"
    and "select_chain (store_state (dispatch cfg e rt)) = Some c" and "\<not> configured cfg c"
  shows "chainId (store_state (dispatch cfg e rt)) = chainId (store_state rt)"
proof (cases e)
  case (Change u a ci)
  show ?thesis
  proof (cases "change u a ci (store_state rt)")
    case (Inl err)
    with Change show ?thesis by simp
  next
    case (Inr x')
    with Change assms change_chainId [OF Inr] store_setState_chainId [of cfg x' rt]
      store_setState_select [of cfg x' rt]
    show ?thesis by auto
  qed
next
  case (Connect u a ci)
  with assms connect_chainId [of "registry rt" u a ci "store_state rt"]
    store_setState_chainId [of cfg "connect (registry rt) u a ci (store_state rt)" rt]
    store_setState_select [of cfg "connect (registry rt) u a ci (store_state rt)" rt]
  show ?thesis by (auto split: option.splits if_splits)
next
  case (Disconnect u)
  show ?thesis
  proof (cases "disconnect u (store_state rt)")
    case (Inl err)
    with Disconnect show ?thesis by simp
  next
    case (Inr x')
    with Disconnect assms disconnect_chainId [OF Inr] store_setState_chainId [of cfg x' rt]
      store_setState_select [of cfg x' rt]
    show ?thesis by auto
  qed
next
  case (Announce c)
  then show ?thesis by simp
next
  case (SetState v)
  with assms show ?thesis by simp
qed

text \<open>
  C5, as amended. After any sequence of emitter events, provider announcements and public
  \<open>setState\<close> calls whose value carries a configured \<open>chainId\<close>, the stored
  \<open>chainId\<close> is the id of a configured chain. When the active connection of a committed
  state reports a chain id that is not configured, the state is stored as it was
  committed; in particular an emitter event after which the active connection reports
  such a chain id leaves the stored \<open>chainId\<close> as it was before the event.
\<close>

theorem chainId_configured_invariant:
  assumes "chains cfg = chain0 # others" and "list_all (event_configured cfg) events"
  shows "configured cfg (chainId (store_state (run cfg events (createStore chain0 connectors))))
       \<and> (select_chain s = Some c \<and> \<not> configured cfg c \<longrightarrow>
            store_state (store_setState cfg s rt) = s)
       \<and> (\<not> is_SetState e \<and> select_chain (store_state (dispatch cfg e rt)) = Some c
            \<and> \<not> configured cfg c \<longrightarrow>
            chainId (store_state (dispatch cfg e rt)) = chainId (store_state rt))"
proof (intro conjI impI)
  from assms(1) have "configured cfg (chainId (store_state (createStore chain0 connectors)))"
    by (simp add: configured_def createStore_def initialState_def)
  with assms(2)
  show "configured cfg (chainId (store_state (run cfg events (createStore chain0 connectors))))"
    by (rule run_configured [rotated])
next
  assume "select_chain s = Some c \<and> \<not> configured cfg c"
  then show "store_state (store_setState cfg s rt) = s"
    by (simp add: store_setState_unconfigured)
next
  assume "\<not> is_SetState e \<and> select_chain (store_state (dispatch cfg e rt)) = Some c
            \<and> \<not> configured cfg c"
  then show "chainId (store_state (dispatch cfg e rt)) = chainId (store_state rt)"
    by (simp add: dispatch_unconfigured_keeps)
qed

theorem chainId_configured_invariant_witness:
  "chains config12 = chain1 # [chain2]
   \<and> list_all (event_configured config12) events_a
   \<and> chainId (store_state (run config12 events_a (createStore chain1 [connA]))) = 2
   \<and> configured config12 2
   \<and> select_chain (store_state (run config12 events_a (createStore chain1 [connA]))) = Some 999
   \<and> \<not> configured config12 999
   \<and> chainId (store_state (run config12 [Connect ''a'' [''0x01''] 2] (createStore chain1 [connA]))) = 2"
proof -
  let ?rt = "run config12 [Connect ''a'' [''0x01''] 2] (createStore chain1 [connA])"
  let ?e = "Change ''a'' None (Some 999)"
  have h: "chains config12 = chain1 # [chain2]" "list_all (event_configured config12) events_a"
    by (simp_all add: example_defs)
  have rt: "?rt = \<lparr>store_state = \<lparr>chainId = 2,
              connections = [(''a'', \<lparr>accounts = [''0x01''], conn_chainId = 2, connector = connA\<rparr>)],
              current = Some ''a'', status = Connected\<rparr>,
            currentSlice = Some 2, registry = [connA]\<rparr>"
    by (simp add: run_def store_setState_def Let_def select_chain_def sync_listener_def
        connect_def createStore_def initialState_def example_defs)
  have run2: "run config12 events_a (createStore chain1 [connA]) = dispatch config12 ?e ?rt"
    by (simp add: run_def events_a_def)
  have sel: "select_chain (store_state (dispatch config12 ?e ?rt)) = Some 999"
    unfolding rt
    by (simp add: store_setState_def Let_def select_chain_def sync_listener_def change_def
        example_defs)
  have nc: "\<not> configured config12 999" and c2: "configured config12 2"
    by (simp_all add: configured_def example_defs)
  have ns: "\<not> is_SetState ?e" by simp
  from chainId_configured_invariant [OF h, where connectors = "[connA]" and c = 999 and e = ?e and rt = ?rt] ns sel nc
  have "chainId (store_state (dispatch config12 ?e ?rt)) = chainId (store_state ?rt)"
    by blast
  moreover have "chainId (store_state ?rt) = 2"
    by (simp add: rt)
  ultimately show ?thesis
    using h sel nc c2 run2 by simp
qed

text \<open>
  The claim C5 as it is written fails through the public \<open>setState\<close>, which checks
  the keys of its value and not the chain id: a state with \<open>chainId\<close> 999 passes the
  checks of lines 339-341 and is committed, with chains 1 and 2 configured.
\<close>

theorem chainId_invariant_counterexample:
  "chains config12 = [chain1, chain2] \<and> \<not> configured config12 999
   \<and> setState (js_of_State (initialState chain1)) (js_of_State (initialState chain1))
       (Value (js_of_State state_999)) = Inr (js_of_State state_999)
   \<and> chainId (store_state (run config12 [SetState state_999] (createStore chain1 []))) = 999
   \<and> \<not> configured config12
         (chainId (store_state (run config12 [SetState state_999] (createStore chain1 []))))"
  by (simp add: run_def store_setState_def Let_def select_chain_def createStore_def
      initialState_def configured_def setState_def js_of_State_def example_defs)

section \<open>The connector transport\<close>

lemma after_await_resolves_null: "resolves_null c \<Longrightarrow> after_await c sc = sc"
  by (auto simp: resolves_null_def after_await_def split: promise.splits option.splits)

lemma started_never_works:
  "list_all never_works fns \<Longrightarrow> list_all resolves_null (started fns)"
  by (induction fns)
    (auto simp: started_def never_works_def split: sum.splits)

lemma resume_resolves_null:
  assumes "list_all resolves_null (suspended t)"
  shows "successfulConnector (resume i t) = successfulConnector t
       \<and> list_all resolves_null (suspended (resume i t))"
proof (cases "i < length (suspended t)")
  case True
  then have "resolves_null (suspended t ! i)"
    using assms by (simp add: list_all_length)
  moreover have "set (take i (suspended t) @ drop (Suc i) (suspended t)) \<subseteq> set (suspended t)"
    by (auto dest: in_set_takeD in_set_dropD)
  ultimately show ?thesis
    using True assms by (auto simp: resume_def after_await_resolves_null list_all_iff)
next
  case False
  then show ?thesis
    using assms by (simp add: resume_def)
qed

lemma resume_all_resolves_null:
  "list_all resolves_null (suspended t) \<Longrightarrow>
     successfulConnector (resume_all order t) = successfulConnector t"
proof (induction order arbitrary: t)
  case Nil
  then show ?case by (simp add: resume_all_def)
next
  case (Cons i order)
  from resume_resolves_null [OF Cons.prems, of i]
  have a: "successfulConnector (resume i t) = successfulConnector t"
    and b: "list_all resolves_null (suspended (resume i t))"
    by auto
  from Cons.IH [OF b] a show ?case
    by (simp add: resume_all_def)
qed

text \<open>
  Whatever the factories, when each of them throws or resolves to \<open>null\<close> the variable
  is \<open>null\<close> at every moment, and every request is rejected with a TypeError.
\<close>

lemma request_never_works:
  assumes "list_all never_works createConnectorFns"
  shows "request (resume_all order (experimental_connector createConnectorFns)) method params
           = Rejected TypeError"
proof -
  have "list_all resolves_null (suspended (experimental_connector createConnectorFns))"
    using assms by (simp add: experimental_connector_def started_never_works)
  then have "successfulConnector (resume_all order (experimental_connector createConnectorFns))
               = None"
    using resume_all_resolves_null [of "experimental_connector createConnectorFns" order]
    by (simp add: experimental_connector_def)
  then show ?thesis
    by (simp add: request_def)
qed

text \<open>
  C1. The claim: when no factory ever yields a working provider, every \<open>request\<close> of
  the returned transport fails with a \<open>NoConnectorAvailable\<close> error. The code has no
  such error: \<open>successfulConnector\<close> stays \<open>null\<close>, the branch that would handle it
  (lines 64-66) is empty, and \<open>request\<close> dereferences the variable, so the promise is
  rejected with a TypeError, both before and after the suspended callbacks have run.
  Lemma \<open>request_never_works\<close> is the same for every list of such factories.
\<close>

theorem request_no_connector_TypeError:
  "request (experimental_connector failing_fns) ''eth_chainId'' [] = Rejected TypeError
   \<and> request (resume_all [0] (experimental_connector failing_fns)) ''eth_chainId'' []
       = Rejected TypeError
   \<and> (Rejected TypeError :: string promise) \<noteq> Rejected NoConnectorAvailable"
  by (simp add: request_def resume_all_def resume_def experimental_connector_def started_def
      after_await_def failing_fns_def)

end
